theory Spec2Isabelle
  imports Complex_Main
begin

section \<open>Data model (types.ts)\<close>

text \<open>
  The TypeScript type \<open>any\<close> (metadata values, old and new values of a history entry)
  is modelled by a JSON-like datatype. No reducer modelled below inspects such a value.
\<close>

datatype any_value =
    JNull
  | JBool bool
  | JNum int
  | JStr string
  | JArr "any_value list"
  | JObj "(string \<times> any_value) list"

datatype ComponentType =
  SERVER | DATABASE | NETWORK | STORAGE | APPLICATION | SERVICE | CONTAINER
  | LOAD_BALANCER | CACHE | QUEUE

datatype ComponentStatus =
  HEALTHY | DEGRADED | WARNING | CRITICAL | UNKNOWN | MAINTENANCE

text \<open>
  \<open>interface InfrastructureComponent\<close>. Optional fields (\<open>metadata?\<close>, \<open>location?\<close>,
  \<open>owner?\<close>) are options; the string arrays are lists, since the reducers use
  \<open>push\<close>, \<open>includes\<close> and \<open>filter\<close> on them and nothing forbids duplicates.
\<close>

record InfrastructureComponent =
  component_id :: string
  name :: string
  component_type :: ComponentType
  status :: ComponentStatus
  metadata :: "(string \<times> any_value) list option"
  dependencies :: "string list"
  dependents :: "string list"
  location :: "string option"
  owner :: "string option"
  created_at :: string
  updated_at :: string
  active_alerts :: "string list"

record ComponentFilters =
  filter_type :: "ComponentType option"
  filter_status :: "ComponentStatus option"
  filter_location :: "string option"
  filter_owner :: "string option"
  filter_hasAlerts :: "bool option"

text \<open>
  \<open>interface InfrastructureState\<close>. \<open>components\<close> is a
  \<open>Record<string, InfrastructureComponent>\<close>: a finite map from the key under which a
  component is stored to the component. The reducers address components by that key only.
\<close>

record InfrastructureState =
  components :: "string \<rightharpoonup> InfrastructureComponent"
  selectedComponent :: "string option"
  loading :: bool
  error :: "string option"
  filters :: ComponentFilters

section \<open>The infrastructure reducers (infrastructureSlice.ts)\<close>

text \<open>
  Every reducer mutates the draft state and returns nothing; the model takes the state and
  returns the new one. Each \<open>new Date().toISOString()\<close> is a reading of the clock and
  is a parameter of the model (\<open>now\<close>; \<open>now1\<close> and \<open>now2\<close> where the
  reducer reads the clock twice).

  \<open>state.components\<close> is a plain object, so \<open>state.components[k]\<close> follows the
  prototype chain: it is the stored component when \<open>k\<close> is a key of the store, and
  otherwise the property of \<open>Object.prototype\<close> of that name when there is one (a
  function, or for \<open>__proto__\<close> the prototype object itself: truthy, and with no
  \<open>dependencies\<close>, \<open>dependents\<close> or \<open>active_alerts\<close>), and \<open>undefined\<close>
  otherwise. \<open>objectPrototypeKeys\<close> lists the property names of \<open>Object.prototype\<close>
  (ECMAScript, with its Annex B).
\<close>

definition objectPrototypeKeys :: "string list" where
  "objectPrototypeKeys =
     [''constructor'', ''__defineGetter__'', ''__defineSetter__'', ''hasOwnProperty'',
      ''__lookupGetter__'', ''__lookupSetter__'', ''isPrototypeOf'',
      ''propertyIsEnumerable'', ''toString'', ''valueOf'', ''__proto__'',
      ''toLocaleString'']"

datatype 'a js_lookup = Own 'a | Inherited | Undefined

definition lookupComponent ::
  "(string \<rightharpoonup> InfrastructureComponent) \<Rightarrow> string \<Rightarrow> InfrastructureComponent js_lookup" where
  "lookupComponent cs k =
     (case cs k of
        Some c \<Rightarrow> Own c
      | None \<Rightarrow> if k \<in> set objectPrototypeKeys then Inherited else Undefined)"

text \<open>
  A reducer that calls \<open>.includes\<close> or \<open>.filter\<close> on the \<open>undefined\<close> list of an
  inherited property throws a TypeError: its result is \<open>Inl TypeError\<close>, and
  \<open>Inr\<close> the new state otherwise.
\<close>

datatype js_error = TypeError

text \<open>
  \<open>updateComponentStatus\<close> only assigns to properties. At an inherited key the guard
  holds and the two assignments land on the inherited object, which is no part of the
  state; nothing throws, and the state is what it was, as for a key that is undefined.
\<close>

definition updateComponentStatus ::
  "string \<Rightarrow> string \<Rightarrow> ComponentStatus \<Rightarrow> InfrastructureState \<Rightarrow> InfrastructureState" where
  "updateComponentStatus now componentId st state =
     (case components state componentId of
        Some c \<Rightarrow>
          state\<lparr>components :=
            (components state)(componentId \<mapsto> c\<lparr>status := st, updated_at := now\<rparr>)\<rparr>
      | None \<Rightarrow> state)"

definition deleteComponent :: "string \<Rightarrow> InfrastructureState \<Rightarrow> InfrastructureState" where
  "deleteComponent payload state =
     (let state1 = state\<lparr>components := (components state)(payload := None)\<rparr>
      in if selectedComponent state1 = Some payload
         then state1\<lparr>selectedComponent := None\<rparr>
         else state1)"

definition addComponentRelationship ::
  "string \<Rightarrow> string \<Rightarrow> string \<Rightarrow> string \<Rightarrow> InfrastructureState
     \<Rightarrow> js_error + InfrastructureState" where
  "addComponentRelationship now1 now2 dependentId dependencyId state =
     (case
        (case lookupComponent (components state) dependentId of
           Own c \<Rightarrow>
             if dependencyId \<notin> set (dependencies c)
             then Inr (state\<lparr>components := (components state)(dependentId \<mapsto>
                    c\<lparr>dependencies := dependencies c @ [dependencyId], updated_at := now1\<rparr>)\<rparr>)
             else Inr state
         | Inherited \<Rightarrow> Inl TypeError
         | Undefined \<Rightarrow> Inr state)
      of
        Inl e \<Rightarrow> Inl e
      | Inr state1 \<Rightarrow>
          (case lookupComponent (components state1) dependencyId of
             Own c \<Rightarrow>
               if dependentId \<notin> set (dependents c)
               then Inr (state1\<lparr>components := (components state1)(dependencyId \<mapsto>
                      c\<lparr>dependents := dependents c @ [dependentId], updated_at := now2\<rparr>)\<rparr>)
               else Inr state1
           | Inherited \<Rightarrow> Inl TypeError
           | Undefined \<Rightarrow> Inr state1))"

definition removeComponentRelationship ::
  "string \<Rightarrow> string \<Rightarrow> string \<Rightarrow> string \<Rightarrow> InfrastructureState
     \<Rightarrow> js_error + InfrastructureState" where
  "removeComponentRelationship now1 now2 dependentId dependencyId state =
     (case
        (case lookupComponent (components state) dependentId of
           Own c \<Rightarrow>
             Inr (state\<lparr>components := (components state)(dependentId \<mapsto>
               c\<lparr>dependencies := filter (\<lambda>i. i \<noteq> dependencyId) (dependencies c),
                 updated_at := now1\<rparr>)\<rparr>)
         | Inherited \<Rightarrow> Inl TypeError
         | Undefined \<Rightarrow> Inr state)
      of
        Inl e \<Rightarrow> Inl e
      | Inr state1 \<Rightarrow>
          (case lookupComponent (components state1) dependencyId of
             Own c \<Rightarrow>
               Inr (state1\<lparr>components := (components state1)(dependencyId \<mapsto>
                 c\<lparr>dependents := filter (\<lambda>i. i \<noteq> dependentId) (dependents c),
                   updated_at := now2\<rparr>)\<rparr>)
           | Inherited \<Rightarrow> Inl TypeError
           | Undefined \<Rightarrow> Inr state1))"

definition addAlertToComponent ::
  "string \<Rightarrow> string \<Rightarrow> string \<Rightarrow> InfrastructureState \<Rightarrow> js_error + InfrastructureState" where
  "addAlertToComponent now componentId alertId state =
     (case lookupComponent (components state) componentId of
        Own c \<Rightarrow>
          if alertId \<notin> set (active_alerts c)
          then Inr (state\<lparr>components := (components state)(componentId \<mapsto>
                 c\<lparr>active_alerts := active_alerts c @ [alertId], updated_at := now\<rparr>)\<rparr>)
          else Inr state
      | Inherited \<Rightarrow> Inl TypeError
      | Undefined \<Rightarrow> Inr state)"

definition removeAlertFromComponent ::
  "string \<Rightarrow> string \<Rightarrow> string \<Rightarrow> InfrastructureState \<Rightarrow> js_error + InfrastructureState" where
  "removeAlertFromComponent now componentId alertId state =
     (case lookupComponent (components state) componentId of
        Own c \<Rightarrow>
          Inr (state\<lparr>components := (components state)(componentId \<mapsto>
            c\<lparr>active_alerts := filter (\<lambda>i. i \<noteq> alertId) (active_alerts c),
              updated_at := now\<rparr>)\<rparr>)
      | Inherited \<Rightarrow> Inl TypeError
      | Undefined \<Rightarrow> Inr state)"

text \<open>
  The state of the Redux store after an action has been dispatched: the state the reducer
  returned, and the state before when the reducer threw (the draft is discarded and the
  exception goes to the caller of \<open>dispatch\<close>).
\<close>

fun stateAfter :: "InfrastructureState \<Rightarrow> js_error + InfrastructureState \<Rightarrow> InfrastructureState" where
  "stateAfter state (Inl e) = state"
| "stateAfter state (Inr state') = state'"

text \<open>
  The edge actions of the slice, each with the clock readings of its reduction, and the
  state of the store after a sequence of them has been dispatched in order.
\<close>

datatype EdgeAction =
    AddRelationship string string string string
  | RemoveRelationship string string string string

fun edgeReducer :: "InfrastructureState \<Rightarrow> EdgeAction \<Rightarrow> js_error + InfrastructureState" where
  "edgeReducer state (AddRelationship now1 now2 dependentId dependencyId) =
     addComponentRelationship now1 now2 dependentId dependencyId state"
| "edgeReducer state (RemoveRelationship now1 now2 dependentId dependencyId) =
     removeComponentRelationship now1 now2 dependentId dependencyId state"

definition dispatchEdge :: "InfrastructureState \<Rightarrow> EdgeAction \<Rightarrow> InfrastructureState" where
  "dispatchEdge state act = stateAfter state (edgeReducer state act)"

definition dispatchEdges :: "EdgeAction list \<Rightarrow> InfrastructureState \<Rightarrow> InfrastructureState" where
  "dispatchEdges acts state = foldl dispatchEdge state acts"

text \<open>
  The edge-symmetry invariant of the data model: for every pair of components A, B of the
  store, B is in A.dependencies exactly when A is in B.dependents.
\<close>

definition edge_symmetric :: "(string \<rightharpoonup> InfrastructureComponent) \<Rightarrow> bool" where
  "edge_symmetric cs \<longleftrightarrow>
     (\<forall>a b ca cb. cs a = Some ca \<longrightarrow> cs b = Some cb \<longrightarrow>
        (b \<in> set (dependencies ca) \<longleftrightarrow> a \<in> set (dependents cb)))"

text \<open>
  Test data for the concrete instances below: a healthy server with the given key, edge
  lists and alerts, and a state holding a given store with nothing selected.
\<close>

definition fixture_component ::
  "string \<Rightarrow> string list \<Rightarrow> string list \<Rightarrow> string list \<Rightarrow> InfrastructureComponent" where
  "fixture_component cid deps dpts als =
     \<lparr>component_id = cid, name = cid, component_type = SERVER, status = HEALTHY,
      metadata = None, dependencies = deps, dependents = dpts, location = None,
      owner = None, created_at = ''2024-01-01T00:00:00.000Z'',
      updated_at = ''2024-01-01T00:00:00.000Z'', active_alerts = als\<rparr>"

definition fixture_state :: "(string \<rightharpoonup> InfrastructureComponent) \<Rightarrow> InfrastructureState" where
  "fixture_state cs =
     \<lparr>components = cs, selectedComponent = None, loading = False, error = None,
      filters = \<lparr>filter_type = None, filter_status = None, filter_location = None,
                 filter_owner = None, filter_hasAlerts = None\<rparr>\<rparr>"

section \<open>Alerts (types.ts, alertsSlice in predictionsSlice.ts)\<close>

datatype AlertSeverity = SEV_CRITICAL | SEV_HIGH | SEV_MEDIUM | SEV_LOW | SEV_INFO

datatype AlertStatus = NEW | ACKNOWLEDGED | IN_PROGRESS | RESOLVED | CLOSED

record AlertUpdate =
  update_timestamp :: string
  field :: string
  old_value :: any_value
  new_value :: any_value
  updated_by :: string
  update_notes :: "string option"

record Alert =
  alert_id :: string
  alert_timestamp :: string
  source_component :: string
  alert_type :: string
  severity :: AlertSeverity
  description :: string
  alert_status :: AlertStatus
  affected_components :: "string list"
  alert_metadata :: "(string \<times> any_value) list option"
  assigned_to :: "string option"
  resolution_time :: "string option"
  resolution_notes :: "string option"
  update_history :: "AlertUpdate list option"

record AlertFilters =
  af_status :: "AlertStatus option"
  af_severity :: "AlertSeverity option"
  af_component :: "string option"
  af_fromDate :: "string option"
  af_toDate :: "string option"

text \<open>
  \<open>selectedAlert\<close> is \<open>Alert | null\<close>, but \<open>updateAlertStatus\<close> can store
  \<open>{ ...alert }\<close> with \<open>alert\<close> undefined there, which is the empty object: truthy,
  and with no \<open>alert_id\<close>.
\<close>

datatype SelectedAlert = Selected Alert | EmptyObject

fun selected_id :: "SelectedAlert \<Rightarrow> string option" where
  "selected_id (Selected a) = Some (alert_id a)"
| "selected_id EmptyObject = None"

record AlertsState =
  alerts :: "Alert list"
  selectedAlert :: "SelectedAlert option"
  alerts_loading :: bool
  alerts_error :: "string option"
  alerts_filters :: AlertFilters

text \<open>
  JavaScript truthiness of an optional string: \<open>undefined\<close> and the empty string are
  falsy, every other string is truthy.
\<close>

definition truthy :: "string option \<Rightarrow> bool" where
  "truthy v = (case v of None \<Rightarrow> False | Some s \<Rightarrow> s \<noteq> [])"

text \<open>
  \<open>state.alerts.find(p)\<close> returns the first element satisfying \<open>p\<close>, and the reducer
  then mutates that object in place: the list with its first such element updated.
\<close>

fun update_first :: "('a \<Rightarrow> bool) \<Rightarrow> ('a \<Rightarrow> 'a) \<Rightarrow> 'a list \<Rightarrow> 'a list" where
  "update_first p f [] = []"
| "update_first p f (x # xs) = (if p x then f x # xs else x # update_first p f xs)"

text \<open>The body of \<open>if (alert) { ... }\<close> in \<open>updateAlertStatus\<close>.\<close>

definition applyStatus :: "string \<Rightarrow> AlertStatus \<Rightarrow> string option \<Rightarrow> Alert \<Rightarrow> Alert" where
  "applyStatus now st notes alert =
     (let a1 = alert\<lparr>alert_status := st\<rparr>;
          a2 = (if truthy notes then a1\<lparr>resolution_notes := notes\<rparr> else a1)
      in if st = RESOLVED \<and> \<not> truthy (resolution_time a2)
         then a2\<lparr>resolution_time := Some now\<rparr>
         else a2)"

definition updateAlertStatus ::
  "string \<Rightarrow> string \<Rightarrow> AlertStatus \<Rightarrow> string option \<Rightarrow> AlertsState \<Rightarrow> AlertsState" where
  "updateAlertStatus now alertId st notes state =
     (let p = (\<lambda>a. alert_id a = alertId);
          alert = map_option (applyStatus now st notes) (find p (alerts state));
          state1 = state\<lparr>alerts := update_first p (applyStatus now st notes) (alerts state)\<rparr>
      in case selectedAlert state1 of
           Some sel \<Rightarrow>
             if selected_id sel = Some alertId
             then state1\<lparr>selectedAlert :=
                    Some (case alert of Some a \<Rightarrow> Selected a | None \<Rightarrow> EmptyObject)\<rparr>
             else state1
         | None \<Rightarrow> state1)"

text \<open>
  The \<open>updateAlertStatus\<close> action with the clock reading of its reduction, and the state
  after a sequence of such actions.
\<close>

datatype AlertAction = UpdateAlertStatus string string AlertStatus "string option"

fun alertReducer :: "AlertsState \<Rightarrow> AlertAction \<Rightarrow> AlertsState" where
  "alertReducer state (UpdateAlertStatus now alertId st notes) =
     updateAlertStatus now alertId st notes state"

definition dispatchAlerts :: "AlertAction list \<Rightarrow> AlertsState \<Rightarrow> AlertsState" where
  "dispatchAlerts acts state = foldl alertReducer state acts"

text \<open>An action that asks for the status resolved on the given alert identifier.\<close>

fun resolves :: "string \<Rightarrow> AlertAction \<Rightarrow> bool" where
  "resolves aid (UpdateAlertStatus now alertId st notes) \<longleftrightarrow> alertId = aid \<and> st = RESOLVED"

text \<open>Test data: an alert with the given id, status, resolution time and history.\<close>

definition fixture_alert ::
  "string \<Rightarrow> AlertStatus \<Rightarrow> string option \<Rightarrow> AlertUpdate list option \<Rightarrow> Alert" where
  "fixture_alert aid st rt hist =
     \<lparr>alert_id = aid, alert_timestamp = ''2024-01-01T00:00:00.000Z'',
      source_component = ''a'', alert_type = ''cpu'', severity = SEV_HIGH,
      description = ''high load'', alert_status = st, affected_components = [''a''],
      alert_metadata = None, assigned_to = None, resolution_time = rt,
      resolution_notes = None, update_history = hist\<rparr>"

definition fixture_alerts :: "Alert list \<Rightarrow> AlertsState" where
  "fixture_alerts xs =
     \<lparr>alerts = xs, selectedAlert = None, alerts_loading = False, alerts_error = None,
      alerts_filters = \<lparr>af_status = None, af_severity = None, af_component = None,
                        af_fromDate = None, af_toDate = None\<rparr>\<rparr>"

section \<open>Notifications (types.ts, uiSlice.ts)\<close>

datatype NotificationType = N_info | N_success | N_warning | N_error

record Notification =
  notif_id :: string
  message :: string
  ntype :: NotificationType
  notif_timestamp :: string
  read :: bool

record NotificationPayload =
  payload_message :: string
  payload_type :: NotificationType

record UiState =
  darkMode :: bool
  sidebarOpen :: bool
  notifications :: "Notification list"
  currentView :: string
  refreshInterval :: int

definition initialState :: UiState where
  "initialState =
     \<lparr>darkMode = True, sidebarOpen = True, notifications = [],
      currentView = ''dashboard'', refreshInterval = 30000\<rparr>"

text \<open>The decimal digits of a natural number, as a template literal prints it.\<close>

fun decimal :: "nat \<Rightarrow> string" where
  "decimal n =
     (if n < 10 then [''0123456789'' ! n]
      else decimal (n div 10) @ [''0123456789'' ! (n mod 10)])"

declare decimal.simps [simp del]

text \<open>
  \<open>addNotification\<close> reads \<open>Date.now()\<close> (\<open>nowMs\<close>), \<open>Math.random()\<close> (\<open>rnd\<close> is
  \<open>Math.floor(Math.random() * 1000)\<close>) and \<open>new Date().toISOString()\<close>
  (\<open>nowIso\<close>); \<open>unshift\<close> puts the new notification in front.
\<close>

definition addNotification ::
  "nat \<Rightarrow> nat \<Rightarrow> string \<Rightarrow> NotificationPayload \<Rightarrow> UiState \<Rightarrow> UiState" where
  "addNotification nowMs rnd nowIso payload state =
     (let nid = ''notification-'' @ decimal nowMs @ ''-'' @ decimal rnd;
          ns = \<lparr>notif_id = nid, message = payload_message payload,
                ntype = payload_type payload, notif_timestamp = nowIso,
                read = False\<rparr> # notifications state
      in if length ns > 50
         then state\<lparr>notifications := take 50 ns\<rparr>
         else state\<lparr>notifications := ns\<rparr>)"

datatype NotificationAction = AddNotification nat nat string NotificationPayload

fun notificationReducer :: "UiState \<Rightarrow> NotificationAction \<Rightarrow> UiState" where
  "notificationReducer state (AddNotification nowMs rnd nowIso payload) =
     addNotification nowMs rnd nowIso payload state"

definition dispatchNotifications :: "NotificationAction list \<Rightarrow> UiState \<Rightarrow> UiState" where
  "dispatchNotifications acts state = foldl notificationReducer state acts"

section \<open>The risk calendar of the predictions page (pages/Analysis/index.tsx)\<close>

datatype RiskLevel = Risk_low | Risk_medium | Risk_high

record OptimalWindow =
  slot_time :: string
  risk_level :: RiskLevel

type_synonym OptimalWindows = "string \<rightharpoonup> OptimalWindow list"

record CalendarCell =
  cell_day :: string
  cell_time :: string
  cell_value :: real

definition days :: "string list" where
  "days = [''Monday'', ''Tuesday'', ''Wednesday'', ''Thursday'', ''Friday'', ''Saturday'',
           ''Sunday'']"

definition timeSlots :: "string list" where
  "timeSlots = [''10:00-12:00'', ''14:00-16:00'']"

text \<open>
  The callback of \<open>timeSlots.map\<close> inside \<open>prepareCalendarData\<close>:
  \<open>optimalWindows[day]?.find(s => s.time === time)\<close> is undefined when the day has no
  entry or no slot of the day has that time.
\<close>

definition findSlot :: "OptimalWindows \<Rightarrow> string \<Rightarrow> string \<Rightarrow> OptimalWindow option" where
  "findSlot optimalWindows day time =
     (case optimalWindows day of
        None \<Rightarrow> None
      | Some slots \<Rightarrow> find (\<lambda>s. slot_time s = time) slots)"

definition calendarCell :: "OptimalWindows \<Rightarrow> string \<Rightarrow> string \<Rightarrow> CalendarCell" where
  "calendarCell optimalWindows day time =
     \<lparr>cell_day = day, cell_time = time,
      cell_value =
        (case findSlot optimalWindows day time of
           Some slot \<Rightarrow>
             if risk_level slot = Risk_low then 0.3
             else if risk_level slot = Risk_medium then 0.6
             else 0.9
         | None \<Rightarrow> 0.5)\<rparr>"

definition prepareCalendarData :: "OptimalWindows option \<Rightarrow> CalendarCell list" where
  "prepareCalendarData ow =
     (case ow of
        None \<Rightarrow> []
      | Some optimalWindows \<Rightarrow>
          concat (map (\<lambda>day. map (\<lambda>time. calendarCell optimalWindows day time) timeSlots) days))"

text \<open>
  The risk band the heat map's tooltip prints for a cell value
  (CalendarHeatmap.tsx): \<open>v < 0.4 ? 'Low' : v < 0.7 ? 'Medium' : 'High'\<close> for the cell's number \<open>v\<close>.
\<close>

definition tooltipRisk :: "real \<Rightarrow> string" where
  "tooltipRisk v = (if v < 0.4 then ''Low'' else if v < 0.7 then ''Medium'' else ''High'')"

section \<open>Lookups and failures\<close>

lemma lookupComponent_Own: "lookupComponent cs k = Own c \<longleftrightarrow> cs k = Some c"
  by (simp add: lookupComponent_def split: option.splits)

lemma lookupComponent_Inherited:
  "lookupComponent cs k = Inherited \<longleftrightarrow> cs k = None \<and> k \<in> set objectPrototypeKeys"
  by (simp add: lookupComponent_def split: option.splits)

lemma lookupComponent_Undefined:
  "lookupComponent cs k = Undefined \<longleftrightarrow> cs k = None \<and> k \<notin> set objectPrototypeKeys"
  by (simp add: lookupComponent_def split: option.splits)

lemma succeeds_or_TypeError: "r = Inl TypeError \<or> (\<exists>s'. r = Inr s')"
proof (cases r)
  case (Inl e)
  then show ?thesis by (cases e) simp
next
  case (Inr s')
  then show ?thesis by simp
qed

lemmas lookupComponent_iff =
  lookupComponent_Own lookupComponent_Inherited lookupComponent_Undefined

section \<open>Edge symmetry under edge actions\<close>

text \<open>
  Each of the two edge reducers keeps the invariant whenever it returns a state. When only
  one endpoint is stored and the other is undefined, only the stored component's list
  changes, and the other identifier names no component of the store, so no pair of stored
  components is affected. When an absent endpoint names an inherited property the reducer
  throws and the store keeps its state.
\<close>

lemma edge_symmetric_add:
  assumes "edge_symmetric (components s)"
    and "addComponentRelationship n1 n2 d1 d2 s = Inr s'"
  shows "edge_symmetric (components s')"
  using assms unfolding edge_symmetric_def addComponentRelationship_def
  by (auto simp: lookupComponent_iff split: js_lookup.splits if_splits sum.splits)

lemma edge_symmetric_remove:
  assumes "edge_symmetric (components s)"
    and "removeComponentRelationship n1 n2 d1 d2 s = Inr s'"
  shows "edge_symmetric (components s')"
  using assms unfolding edge_symmetric_def removeComponentRelationship_def
  by (auto simp: lookupComponent_iff split: js_lookup.splits if_splits sum.splits)

lemma edge_symmetric_reducer:
  "edge_symmetric (components s) \<Longrightarrow> edgeReducer s a = Inr s' \<Longrightarrow>
   edge_symmetric (components s')"
  by (cases a) (auto dest: edge_symmetric_add edge_symmetric_remove)

lemma edge_symmetric_dispatch:
  "edge_symmetric (components s) \<Longrightarrow> edge_symmetric (components (dispatchEdge s a))"
  unfolding dispatchEdge_def
  by (cases "edgeReducer s a") (auto dest: edge_symmetric_reducer)

text \<open>
  Claim C1. Edge-symmetry invariant: if in a component store, for every pair of components
  A and B, B is in A.dependencies exactly when A is in B.dependents, then after any sequence
  of \<open>addComponentRelationship\<close> and \<open>removeComponentRelationship\<close> actions has been
  dispatched, with arbitrary identifiers (also ones naming no stored component, also ones
  at which the reducer throws, and equal ones), the same holds for every pair of components
  of the resulting store; and it holds of every state that one of the two reducers returns.
\<close>

theorem edge_symmetry_preserved:
  "edge_symmetric (components s) \<Longrightarrow>
   edge_symmetric (components (dispatchEdges acts s))
   \<and> (\<forall>act s'. edgeReducer s act = Inr s' \<longrightarrow> edge_symmetric (components s'))"
proof
  assume sym: "edge_symmetric (components s)"
  then show "edge_symmetric (components (dispatchEdges acts s))"
    unfolding dispatchEdges_def
    by (induction acts arbitrary: s) (simp_all add: edge_symmetric_dispatch)
  from sym show "\<forall>act s'. edgeReducer s act = Inr s' \<longrightarrow> edge_symmetric (components s')"
    by (blast intro: edge_symmetric_reducer)
qed

text \<open>
  An instance: from a store with the edge a \<rightarrow> b, an edge to the absent component c is
  added, an edge to the inherited name constructor is attempted, the edge a \<rightarrow> b is
  removed, and a self-edge is added to b.
\<close>

theorem edge_symmetry_preserved_witness:
  "edge_symmetric
     (components (fixture_state
        [''a'' \<mapsto> fixture_component ''a'' [''b''] [] [],
         ''b'' \<mapsto> fixture_component ''b'' [] [''a''] []]))
   \<and> edge_symmetric
     (components (dispatchEdges
        [AddRelationship ''t1'' ''t2'' ''a'' ''c'',
         AddRelationship ''t3'' ''t4'' ''a'' ''constructor'',
         RemoveRelationship ''t5'' ''t6'' ''a'' ''b'',
         AddRelationship ''t7'' ''t8'' ''b'' ''b'']
        (fixture_state
          [''a'' \<mapsto> fixture_component ''a'' [''b''] [] [],
           ''b'' \<mapsto> fixture_component ''b'' [] [''a''] []])))"
proof -
  have h: "edge_symmetric
     (components (fixture_state
        [''a'' \<mapsto> fixture_component ''a'' [''b''] [] [],
         ''b'' \<mapsto> fixture_component ''b'' [] [''a''] []]))"
    by (auto simp: edge_symmetric_def fixture_state_def fixture_component_def split: if_splits)
  from edge_symmetry_preserved [OF h] have
    "edge_symmetric (components (dispatchEdges
        [AddRelationship ''t1'' ''t2'' ''a'' ''c'',
         AddRelationship ''t3'' ''t4'' ''a'' ''constructor'',
         RemoveRelationship ''t5'' ''t6'' ''a'' ''b'',
         AddRelationship ''t7'' ''t8'' ''b'' ''b'']
        (fixture_state
          [''a'' \<mapsto> fixture_component ''a'' [''b''] [] [],
           ''b'' \<mapsto> fixture_component ''b'' [] [''a''] []])))"
    by (rule conjunct1)
  with h show ?thesis by (intro conjI)
qed

section \<open>Adding an edge\<close>

text \<open>
  The statement of claim C2, that adding an edge with an absent endpoint or with equal
  endpoints fails and leaves the store unchanged, is false of the reducer. With only a
  stored and b absent, adding the edge a \<rightarrow> b does not fail and appends b to the
  dependencies of a; with both endpoints equal to a, it does not fail and a is appended to
  its own dependencies and dependents.
\<close>

theorem addComponentRelationship_one_sided_counterexample:
  "components (fixture_state [''a'' \<mapsto> fixture_component ''a'' [] [] []]) ''b'' = None
   \<and> map_option dependencies
        (components (fixture_state [''a'' \<mapsto> fixture_component ''a'' [] [] []]) ''a'') = Some []
   \<and> addComponentRelationship ''t1'' ''t2'' ''a'' ''b''
        (fixture_state [''a'' \<mapsto> fixture_component ''a'' [] [] []]) \<noteq> Inl TypeError
   \<and> map_option dependencies
        (components (stateAfter (fixture_state [''a'' \<mapsto> fixture_component ''a'' [] [] []])
           (addComponentRelationship ''t1'' ''t2'' ''a'' ''b''
              (fixture_state [''a'' \<mapsto> fixture_component ''a'' [] [] []]))) ''a'') = Some [''b'']
   \<and> addComponentRelationship ''t1'' ''t2'' ''a'' ''a''
        (fixture_state [''a'' \<mapsto> fixture_component ''a'' [] [] []]) \<noteq> Inl TypeError
   \<and> map_option dependencies
        (components (stateAfter (fixture_state [''a'' \<mapsto> fixture_component ''a'' [] [] []])
           (addComponentRelationship ''t1'' ''t2'' ''a'' ''a''
              (fixture_state [''a'' \<mapsto> fixture_component ''a'' [] [] []]))) ''a'') = Some [''a'']
   \<and> map_option dependents
        (components (stateAfter (fixture_state [''a'' \<mapsto> fixture_component ''a'' [] [] []])
           (addComponentRelationship ''t1'' ''t2'' ''a'' ''a''
              (fixture_state [''a'' \<mapsto> fixture_component ''a'' [] [] []]))) ''a'') = Some [''a'']"
  by (simp add: addComponentRelationship_def lookupComponent_def objectPrototypeKeys_def
      fixture_state_def fixture_component_def)

text \<open>
  Claim C2, amended. \<open>addComponentRelationship\<close> reports neither NotFound nor
  SelfReference. It fails, with a TypeError, exactly when an endpoint that is absent from
  the store names a property of \<open>Object.prototype\<close>; the store then keeps its state.
  Whenever it returns: when both endpoints are absent the state is unchanged; when the
  dependent is stored, the dependency identifier is appended to its dependencies unless
  already there, whether or not that identifier names a stored component or equals the
  dependent; when the dependency is stored, the dependent identifier is appended to its
  dependents unless already there; every other component is unchanged, and so is the set
  of stored keys.
\<close>

theorem addComponentRelationship_effect:
  "(addComponentRelationship now1 now2 dependentId dependencyId s = Inl TypeError \<longleftrightarrow>
      (components s dependentId = None \<and> dependentId \<in> set objectPrototypeKeys)
      \<or> (components s dependencyId = None \<and> dependencyId \<in> set objectPrototypeKeys))
   \<and> (\<forall>s'. addComponentRelationship now1 now2 dependentId dependencyId s = Inr s' \<longrightarrow>
        (components s dependentId = None \<and> components s dependencyId = None \<longrightarrow> s' = s)
        \<and> (\<forall>c. components s dependentId = Some c \<longrightarrow>
             (\<exists>c'. components s' dependentId = Some c'
                \<and> dependencies c' =
                    (if dependencyId \<in> set (dependencies c) then dependencies c
                     else dependencies c @ [dependencyId])
                \<and> dependencyId \<in> set (dependencies c')))
        \<and> (\<forall>c. components s dependencyId = Some c \<longrightarrow>
             (\<exists>c'. components s' dependencyId = Some c'
                \<and> dependents c' =
                    (if dependentId \<in> set (dependents c) then dependents c
                     else dependents c @ [dependentId])
                \<and> dependentId \<in> set (dependents c')))
        \<and> (\<forall>k. k \<noteq> dependentId \<and> k \<noteq> dependencyId \<longrightarrow> components s' k = components s k)
        \<and> dom (components s') = dom (components s))"
  unfolding addComponentRelationship_def
  by (auto simp: lookupComponent_iff split: js_lookup.splits if_splits sum.splits)

theorem addComponentRelationship_effect_witness:
  "components (fixture_state [''a'' \<mapsto> fixture_component ''a'' [] [] []]) ''a''
     = Some (fixture_component ''a'' [] [] [])
   \<and> components (fixture_state [''a'' \<mapsto> fixture_component ''a'' [] [] []]) ''b'' = None
   \<and> components (fixture_state [''a'' \<mapsto> fixture_component ''a'' [] [] []]) ''c'' = None
   \<and> components (fixture_state [''a'' \<mapsto> fixture_component ''a'' [] [] []]) ''constructor'' = None
   \<and> ''constructor'' \<in> set objectPrototypeKeys
   \<and> addComponentRelationship ''t1'' ''t2'' ''a'' ''constructor''
        (fixture_state [''a'' \<mapsto> fixture_component ''a'' [] [] []]) = Inl TypeError
   \<and> addComponentRelationship ''t1'' ''t2'' ''b'' ''c''
        (fixture_state [''a'' \<mapsto> fixture_component ''a'' [] [] []])
      = Inr (fixture_state [''a'' \<mapsto> fixture_component ''a'' [] [] []])
   \<and> (\<exists>s' c'. addComponentRelationship ''t1'' ''t2'' ''a'' ''b''
              (fixture_state [''a'' \<mapsto> fixture_component ''a'' [] [] []]) = Inr s'
          \<and> components s' ''a'' = Some c' \<and> dependencies c' = [''b''])"
proof -
  let ?s = "fixture_state [''a'' \<mapsto> fixture_component ''a'' [] [] []]"
  have a: "components ?s ''a'' = Some (fixture_component ''a'' [] [] [])"
    and b: "components ?s ''b'' = None" and c: "components ?s ''c'' = None"
    and k: "components ?s ''constructor'' = None"
    by (simp_all add: fixture_state_def)
  have p: "''constructor'' \<in> set objectPrototypeKeys"
    and nb: "''b'' \<notin> set objectPrototypeKeys" and nc: "''c'' \<notin> set objectPrototypeKeys"
    by (simp_all add: objectPrototypeKeys_def)
  have d: "dependencies (fixture_component ''a'' [] [] []) = []"
    by (simp add: fixture_component_def)
  from addComponentRelationship_effect [of "''t1''" "''t2''" "''a''" "''constructor''" ?s] k p
  have 1: "addComponentRelationship ''t1'' ''t2'' ''a'' ''constructor'' ?s = Inl TypeError"
    by simp
  from addComponentRelationship_effect [of "''t1''" "''t2''" "''b''" "''c''" ?s] b c nb nc
    succeeds_or_TypeError [of "addComponentRelationship ''t1'' ''t2'' ''b'' ''c'' ?s"]
  have 2: "addComponentRelationship ''t1'' ''t2'' ''b'' ''c'' ?s = Inr ?s"
    by auto
  from addComponentRelationship_effect [of "''t1''" "''t2''" "''a''" "''b''" ?s] a b nb d
  have 3: "\<exists>s' c'. addComponentRelationship ''t1'' ''t2'' ''a'' ''b'' ?s = Inr s'
          \<and> components s' ''a'' = Some c' \<and> dependencies c' = [''b'']"
    using succeeds_or_TypeError [of "addComponentRelationship ''t1'' ''t2'' ''a'' ''b'' ?s"]
    by auto
  from a b c k p 1 2 3 show ?thesis by (intro conjI)
qed

section \<open>Deleting a component\<close>

text \<open>
  The statement of claim C3, that after deletion no remaining component names the deleted
  one, is false of the reducer: with the edge a \<rightarrow> b stored on both sides, deleting b
  leaves a exactly as it was, b still among its dependencies.
\<close>

theorem deleteComponent_dangling_counterexample:
  "components (fixture_state
       [''a'' \<mapsto> fixture_component ''a'' [''b''] [] [],
        ''b'' \<mapsto> fixture_component ''b'' [] [''a''] []]) ''b''
     = Some (fixture_component ''b'' [] [''a''] [])
   \<and> components (deleteComponent ''b'' (fixture_state
       [''a'' \<mapsto> fixture_component ''a'' [''b''] [] [],
        ''b'' \<mapsto> fixture_component ''b'' [] [''a''] []])) ''a''
     = Some (fixture_component ''a'' [''b''] [] [])
   \<and> ''b'' \<in> set (dependencies (fixture_component ''a'' [''b''] [] []))"
  by (simp add: deleteComponent_def fixture_state_def fixture_component_def)

text \<open>
  Claim C3, amended. After \<open>deleteComponent\<close> the component is absent from the store,
  and every other key of the store holds exactly what it held before: the edge lists of the
  remaining components are not touched, so they may still name the deleted component.
\<close>

theorem deleteComponent_effect:
  "components (deleteComponent componentId s) componentId = None
   \<and> (\<forall>k. k \<noteq> componentId \<longrightarrow>
         components (deleteComponent componentId s) k = components s k)"
  by (simp add: deleteComponent_def Let_def)

theorem deleteComponent_effect_witness:
  "components (deleteComponent ''b'' (fixture_state
       [''a'' \<mapsto> fixture_component ''a'' [''b''] [] [],
        ''b'' \<mapsto> fixture_component ''b'' [] [''a''] []])) ''b'' = None
   \<and> ''a'' \<noteq> ''b''
   \<and> components (deleteComponent ''b'' (fixture_state
       [''a'' \<mapsto> fixture_component ''a'' [''b''] [] [],
        ''b'' \<mapsto> fixture_component ''b'' [] [''a''] []])) ''a''
     = Some (fixture_component ''a'' [''b''] [] [])"
  using deleteComponent_effect [of "''b''" "fixture_state
       [''a'' \<mapsto> fixture_component ''a'' [''b''] [] [],
        ''b'' \<mapsto> fixture_component ''b'' [] [''a''] []]"]
  by (simp add: fixture_state_def)

section \<open>Updating a component's status\<close>

text \<open>
  Claim C8. Frame property of \<open>updateComponentStatus\<close>: every component stored under
  another key is unchanged; the named component, when stored, gets the new status and the
  clock reading as \<open>updated_at\<close> and keeps every other field; when the key is absent
  the whole state is unchanged; the rest of the state is never changed.
\<close>

theorem updateComponentStatus_frame:
  "(\<forall>k. k \<noteq> componentId \<longrightarrow>
       components (updateComponentStatus now componentId st s) k = components s k)
   \<and> (\<forall>c. components s componentId = Some c \<longrightarrow>
        (\<exists>c'. components (updateComponentStatus now componentId st s) componentId = Some c'
           \<and> status c' = st \<and> updated_at c' = now
           \<and> component_id c' = component_id c \<and> name c' = name c
           \<and> component_type c' = component_type c \<and> metadata c' = metadata c
           \<and> dependencies c' = dependencies c \<and> dependents c' = dependents c
           \<and> location c' = location c \<and> owner c' = owner c
           \<and> created_at c' = created_at c \<and> active_alerts c' = active_alerts c))
   \<and> (components s componentId = None \<longrightarrow> updateComponentStatus now componentId st s = s)
   \<and> selectedComponent (updateComponentStatus now componentId st s) = selectedComponent s
   \<and> loading (updateComponentStatus now componentId st s) = loading s
   \<and> error (updateComponentStatus now componentId st s) = error s
   \<and> filters (updateComponentStatus now componentId st s) = filters s"
  by (simp add: updateComponentStatus_def split: option.splits)

theorem updateComponentStatus_frame_witness:
  "''b'' \<noteq> ''a''
   \<and> components (updateComponentStatus ''t1'' ''a'' CRITICAL (fixture_state
        [''a'' \<mapsto> fixture_component ''a'' [''b''] [] [''x''],
         ''b'' \<mapsto> fixture_component ''b'' [] [''a''] []])) ''b''
      = Some (fixture_component ''b'' [] [''a''] [])
   \<and> (\<exists>c'. components (updateComponentStatus ''t1'' ''a'' CRITICAL (fixture_state
        [''a'' \<mapsto> fixture_component ''a'' [''b''] [] [''x''],
         ''b'' \<mapsto> fixture_component ''b'' [] [''a''] []])) ''a'' = Some c'
        \<and> status c' = CRITICAL \<and> updated_at c' = ''t1''
        \<and> dependencies c' = [''b''] \<and> dependents c' = [] \<and> active_alerts c' = [''x''])
   \<and> updateComponentStatus ''t1'' ''z'' CRITICAL (fixture_state
        [''a'' \<mapsto> fixture_component ''a'' [''b''] [] [''x''],
         ''b'' \<mapsto> fixture_component ''b'' [] [''a''] []])
      = fixture_state
        [''a'' \<mapsto> fixture_component ''a'' [''b''] [] [''x''],
         ''b'' \<mapsto> fixture_component ''b'' [] [''a''] []]"
  using updateComponentStatus_frame [of "''a''" "''t1''" CRITICAL "fixture_state
        [''a'' \<mapsto> fixture_component ''a'' [''b''] [] [''x''],
         ''b'' \<mapsto> fixture_component ''b'' [] [''a''] []]"]
     updateComponentStatus_frame [of "''z''" "''t1''" CRITICAL "fixture_state
        [''a'' \<mapsto> fixture_component ''a'' [''b''] [] [''x''],
         ''b'' \<mapsto> fixture_component ''b'' [] [''a''] []]"]
  by (auto simp: fixture_state_def fixture_component_def)

section \<open>Active alerts of a component\<close>

lemma count_list_append_single:
  "count_list (xs @ [y]) x = count_list xs x + (if x = y then 1 else 0)"
  by (induction xs) auto

lemma count_list_zero_iff: "count_list xs x = 0 \<longleftrightarrow> x \<notin> set xs"
  by (induction xs) auto

lemma addAlertToComponent_stored:
  assumes "components s componentId = Some c"
  shows "\<exists>s' c'. addAlertToComponent now1 componentId alertId s = Inr s'
           \<and> components s' componentId = Some c'
           \<and> active_alerts c' =
               (if alertId \<in> set (active_alerts c) then active_alerts c
                else active_alerts c @ [alertId])
           \<and> count_list (active_alerts c') alertId = max 1 (count_list (active_alerts c) alertId)
           \<and> (distinct (active_alerts c) \<longrightarrow> distinct (active_alerts c'))
           \<and> addAlertToComponent now2 componentId alertId s' = Inr s'"
proof (cases "alertId \<in> set (active_alerts c)")
  case True
  then have "count_list (active_alerts c) alertId \<noteq> 0"
    by (simp add: count_list_zero_iff)
  with True assms show ?thesis
    by (simp add: addAlertToComponent_def lookupComponent_def max_def)
next
  case False
  then have "count_list (active_alerts c) alertId = 0"
    by (simp add: count_list_zero_iff)
  with False assms show ?thesis
    by (simp add: addAlertToComponent_def lookupComponent_def count_list_append_single)
qed

lemma addAlertToComponent_twice:
  "stateAfter (stateAfter s (addAlertToComponent now1 componentId alertId s))
       (addAlertToComponent now2 componentId alertId
          (stateAfter s (addAlertToComponent now1 componentId alertId s)))
     = stateAfter s (addAlertToComponent now1 componentId alertId s)"
  by (simp add: addAlertToComponent_def lookupComponent_def split: option.splits)

text \<open>
  Claim C9. Registering an alert with a component twice leaves the store in the same state
  as registering it once. For a stored component, \<open>addAlertToComponent\<close> leaves
  \<open>active_alerts\<close> as it is when the alert identifier is already there and appends the
  identifier otherwise, so the identifier then occurs once, a list without duplicates
  stays without duplicates, and a second registration returns the same state.
  \<open>removeAlertFromComponent\<close> leaves exactly the entries other than the alert
  identifier, in their order, so no occurrence of it remains. For a key that is not
  stored, both reducers return the state unchanged, or throw a TypeError when the key names
  a property of \<open>Object.prototype\<close>.
\<close>

theorem addAlertToComponent_idempotent:
  "stateAfter (stateAfter s (addAlertToComponent now1 componentId alertId s))
       (addAlertToComponent now2 componentId alertId
          (stateAfter s (addAlertToComponent now1 componentId alertId s)))
     = stateAfter s (addAlertToComponent now1 componentId alertId s)
   \<and> (\<forall>c. components s componentId = Some c \<longrightarrow>
        (\<exists>s' c'. addAlertToComponent now1 componentId alertId s = Inr s'
           \<and> components s' componentId = Some c'
           \<and> active_alerts c' =
               (if alertId \<in> set (active_alerts c) then active_alerts c
                else active_alerts c @ [alertId])
           \<and> count_list (active_alerts c') alertId = max 1 (count_list (active_alerts c) alertId)
           \<and> (distinct (active_alerts c) \<longrightarrow> distinct (active_alerts c'))
           \<and> addAlertToComponent now2 componentId alertId s' = Inr s'))
   \<and> (\<forall>c. components s componentId = Some c \<longrightarrow>
        (\<exists>s' c'. removeAlertFromComponent now1 componentId alertId s = Inr s'
           \<and> components s' componentId = Some c'
           \<and> active_alerts c' = filter (\<lambda>i. i \<noteq> alertId) (active_alerts c)
           \<and> alertId \<notin> set (active_alerts c')))
   \<and> (components s componentId = None \<longrightarrow>
        (if componentId \<in> set objectPrototypeKeys
         then addAlertToComponent now1 componentId alertId s = Inl TypeError
            \<and> removeAlertFromComponent now1 componentId alertId s = Inl TypeError
         else addAlertToComponent now1 componentId alertId s = Inr s
            \<and> removeAlertFromComponent now1 componentId alertId s = Inr s))"
proof (intro conjI allI impI)
  show "stateAfter (stateAfter s (addAlertToComponent now1 componentId alertId s))
       (addAlertToComponent now2 componentId alertId
          (stateAfter s (addAlertToComponent now1 componentId alertId s)))
     = stateAfter s (addAlertToComponent now1 componentId alertId s)"
    by (rule addAlertToComponent_twice)
next
  fix c assume "components s componentId = Some c"
  then show "\<exists>s' c'. addAlertToComponent now1 componentId alertId s = Inr s'
           \<and> components s' componentId = Some c'
           \<and> active_alerts c' =
               (if alertId \<in> set (active_alerts c) then active_alerts c
                else active_alerts c @ [alertId])
           \<and> count_list (active_alerts c') alertId = max 1 (count_list (active_alerts c) alertId)
           \<and> (distinct (active_alerts c) \<longrightarrow> distinct (active_alerts c'))
           \<and> addAlertToComponent now2 componentId alertId s' = Inr s'"
    by (rule addAlertToComponent_stored)
next
  fix c assume "components s componentId = Some c"
  then show "\<exists>s' c'. removeAlertFromComponent now1 componentId alertId s = Inr s'
           \<and> components s' componentId = Some c'
           \<and> active_alerts c' = filter (\<lambda>i. i \<noteq> alertId) (active_alerts c)
           \<and> alertId \<notin> set (active_alerts c')"
    by (simp add: removeAlertFromComponent_def lookupComponent_def)
next
  assume "components s componentId = None"
  then show "if componentId \<in> set objectPrototypeKeys
         then addAlertToComponent now1 componentId alertId s = Inl TypeError
            \<and> removeAlertFromComponent now1 componentId alertId s = Inl TypeError
         else addAlertToComponent now1 componentId alertId s = Inr s
            \<and> removeAlertFromComponent now1 componentId alertId s = Inr s"
    by (simp add: addAlertToComponent_def removeAlertFromComponent_def lookupComponent_def)
qed

theorem addAlertToComponent_idempotent_witness:
  "components (fixture_state [''a'' \<mapsto> fixture_component ''a'' [] [] [''x'', ''y'', ''x'']]) ''a''
     = Some (fixture_component ''a'' [] [] [''x'', ''y'', ''x''])
   \<and> components (fixture_state [''a'' \<mapsto> fixture_component ''a'' [] [] [''x'', ''y'', ''x'']])
        ''toString'' = None
   \<and> ''toString'' \<in> set objectPrototypeKeys
   \<and> addAlertToComponent ''t1'' ''toString'' ''z''
        (fixture_state [''a'' \<mapsto> fixture_component ''a'' [] [] [''x'', ''y'', ''x'']])
      = Inl TypeError
   \<and> (\<exists>s' c'. addAlertToComponent ''t1'' ''a'' ''z''
          (fixture_state [''a'' \<mapsto> fixture_component ''a'' [] [] [''x'', ''y'', ''x'']]) = Inr s'
        \<and> components s' ''a'' = Some c'
        \<and> active_alerts c' = [''x'', ''y'', ''x'', ''z'']
        \<and> addAlertToComponent ''t2'' ''a'' ''z'' s' = Inr s')
   \<and> (\<exists>s' c'. removeAlertFromComponent ''t1'' ''a'' ''x''
          (fixture_state [''a'' \<mapsto> fixture_component ''a'' [] [] [''x'', ''y'', ''x'']]) = Inr s'
        \<and> components s' ''a'' = Some c'
        \<and> active_alerts c' = [''y''])"
proof -
  let ?s = "fixture_state [''a'' \<mapsto> fixture_component ''a'' [] [] [''x'', ''y'', ''x'']]"
  have a: "components ?s ''a'' = Some (fixture_component ''a'' [] [] [''x'', ''y'', ''x''])"
    and k: "components ?s ''toString'' = None"
    by (simp_all add: fixture_state_def)
  have p: "''toString'' \<in> set objectPrototypeKeys"
    by (simp add: objectPrototypeKeys_def)
  have l: "active_alerts (fixture_component ''a'' [] [] [''x'', ''y'', ''x'']) = [''x'', ''y'', ''x'']"
    by (simp add: fixture_component_def)
  from addAlertToComponent_idempotent [of ?s "''t1''" "''toString''" "''z''" "''t2''"] k p
  have 1: "addAlertToComponent ''t1'' ''toString'' ''z'' ?s = Inl TypeError"
    by simp
  from addAlertToComponent_idempotent [of ?s "''t1''" "''a''" "''z''" "''t2''"] a l
  have 2: "\<exists>s' c'. addAlertToComponent ''t1'' ''a'' ''z'' ?s = Inr s'
        \<and> components s' ''a'' = Some c'
        \<and> active_alerts c' = [''x'', ''y'', ''x'', ''z'']
        \<and> addAlertToComponent ''t2'' ''a'' ''z'' s' = Inr s'"
    by auto
  from addAlertToComponent_idempotent [of ?s "''t1''" "''a''" "''x''" "''t2''"] a l
  have 3: "\<exists>s' c'. removeAlertFromComponent ''t1'' ''a'' ''x'' ?s = Inr s'
        \<and> components s' ''a'' = Some c'
        \<and> active_alerts c' = [''y'']"
    by auto
  from a k p 1 2 3 show ?thesis by (intro conjI)
qed

section \<open>Updating an alert's status\<close>

lemma length_update_first: "length (update_first p f xs) = length xs"
  by (induction xs) auto

lemma nth_update_first_exact:
  "i < length xs \<Longrightarrow>
   update_first p f xs ! i = (if p (xs ! i) \<and> (\<forall>j<i. \<not> p (xs ! j)) then f (xs ! i) else xs ! i)"
proof (induction xs arbitrary: i)
  case Nil
  then show ?case by simp
next
  case (Cons x xs)
  show ?case
  proof (cases i)
    case 0
    then show ?thesis by simp
  next
    case (Suc k)
    with Cons.prems have k: "k < length xs" by simp
    show ?thesis
    proof (cases "p x")
      case True
      then have "\<not> (\<forall>j<i. \<not> p ((x # xs) ! j))"
        using Suc by (auto intro: exI [of _ 0])
      with True Suc show ?thesis by auto
    next
      case False
      have "(\<forall>j<i. \<not> p ((x # xs) ! j)) \<longleftrightarrow> (\<forall>j<k. \<not> p (xs ! j))"
      proof
        assume h: "\<forall>j<i. \<not> p ((x # xs) ! j)"
        show "\<forall>j<k. \<not> p (xs ! j)"
        proof (intro allI impI)
          fix j assume "j < k"
          then have "Suc j < i" using Suc by simp
          with h have "\<not> p ((x # xs) ! Suc j)" by blast
          then show "\<not> p (xs ! j)" by simp
        qed
      next
        assume h: "\<forall>j<k. \<not> p (xs ! j)"
        show "\<forall>j<i. \<not> p ((x # xs) ! j)"
        proof (intro allI impI)
          fix j assume "j < i"
          then show "\<not> p ((x # xs) ! j)"
            using h False Suc by (cases j) auto
        qed
      qed
      with False Suc Cons.IH [OF k] show ?thesis by auto
    qed
  qed
qed

lemma find_update_first:
  "(\<And>x. p x \<Longrightarrow> p (f x)) \<Longrightarrow> find p (update_first p f xs) = map_option f (find p xs)"
  by (induction xs) auto

lemma map_update_first:
  "(\<And>x. g (f x) = g x) \<Longrightarrow> map g (update_first p f xs) = map g xs"
  by (induction xs) auto

lemma alert_id_applyStatus: "alert_id (applyStatus now st notes a) = alert_id a"
  by (simp add: applyStatus_def Let_def)

lemma update_history_applyStatus: "update_history (applyStatus now st notes a) = update_history a"
  by (simp add: applyStatus_def Let_def)

lemma alerts_updateAlertStatus:
  "alerts (updateAlertStatus now alertId st notes s)
     = update_first (\<lambda>a. alert_id a = alertId) (applyStatus now st notes) (alerts s)"
  by (simp add: updateAlertStatus_def Let_def split: option.splits)

lemma find_updateAlertStatus:
  "find (\<lambda>a. alert_id a = alertId) (alerts (updateAlertStatus now alertId st notes s))
     = map_option (applyStatus now st notes) (find (\<lambda>a. alert_id a = alertId) (alerts s))"
  by (simp add: alerts_updateAlertStatus find_update_first alert_id_applyStatus)

text \<open>
  The statement of claim C4, that a backward status transition fails with
  InvalidTransition and leaves the status as it was, is false of the reducer: an
  acknowledged alert and a closed alert both become new.
\<close>

theorem updateAlertStatus_backward_counterexample:
  "map alert_status (alerts (fixture_alerts [fixture_alert ''al1'' ACKNOWLEDGED None None]))
     = [ACKNOWLEDGED]
   \<and> map alert_status (alerts (updateAlertStatus ''t1'' ''al1'' NEW None
        (fixture_alerts [fixture_alert ''al1'' ACKNOWLEDGED None None]))) = [NEW]
   \<and> map alert_status (alerts (updateAlertStatus ''t1'' ''al1'' NEW None
        (fixture_alerts [fixture_alert ''al1'' CLOSED None None]))) = [NEW]"
  by (simp add: updateAlertStatus_def applyStatus_def truthy_def fixture_alerts_def
      fixture_alert_def)

text \<open>
  Claim C4, amended. \<open>updateAlertStatus\<close> checks no transition and has no failure
  outcome: the first alert with the given identifier gets whatever status is requested,
  backward transitions included. Its update history is left exactly as it was; its
  resolution notes are replaced only when non-empty notes are given; its resolution time is
  assigned only when the requested status is resolved and no resolution time was set.
\<close>

theorem updateAlertStatus_unchecked:
  "find (\<lambda>a. alert_id a = alertId) (alerts s) = Some a \<Longrightarrow>
   \<exists>a'. find (\<lambda>a. alert_id a = alertId) (alerts (updateAlertStatus now alertId st notes s)) = Some a'
      \<and> alert_status a' = st
      \<and> update_history a' = update_history a
      \<and> resolution_notes a' = (if truthy notes then notes else resolution_notes a)
      \<and> resolution_time a' =
          (if st = RESOLVED \<and> \<not> truthy (resolution_time a) then Some now
           else resolution_time a)"
  by (simp add: find_updateAlertStatus applyStatus_def Let_def)

theorem updateAlertStatus_unchecked_witness:
  "find (\<lambda>a. alert_id a = ''al1'')
      (alerts (fixture_alerts [fixture_alert ''al1'' ACKNOWLEDGED None (Some [])]))
     = Some (fixture_alert ''al1'' ACKNOWLEDGED None (Some []))
   \<and> (\<exists>a'. find (\<lambda>a. alert_id a = ''al1'')
         (alerts (updateAlertStatus ''t1'' ''al1'' NEW None
            (fixture_alerts [fixture_alert ''al1'' ACKNOWLEDGED None (Some [])]))) = Some a'
        \<and> alert_status a' = NEW \<and> update_history a' = Some []
        \<and> resolution_notes a' = None \<and> resolution_time a' = None)"
proof -
  have h: "find (\<lambda>a. alert_id a = ''al1'')
      (alerts (fixture_alerts [fixture_alert ''al1'' ACKNOWLEDGED None (Some [])]))
     = Some (fixture_alert ''al1'' ACKNOWLEDGED None (Some []))"
    by (simp add: fixture_alerts_def fixture_alert_def)
  from updateAlertStatus_unchecked [OF h, of "''t1''" NEW None] h show ?thesis
    by (simp add: truthy_def fixture_alert_def)
qed

lemma resolution_time_applyStatus:
  "resolution_time (applyStatus now st notes a)
     = (if st = RESOLVED \<and> \<not> truthy (resolution_time a) then Some now else resolution_time a)"
  by (auto simp: applyStatus_def Let_def)

lemma resolution_time_step_exact:
  assumes "i < length (alerts s)"
  shows "resolution_time (alerts (updateAlertStatus now alertId st notes s) ! i)
     = (if st = RESOLVED \<and> alert_id (alerts s ! i) = alertId
           \<and> (\<forall>j<i. alert_id (alerts s ! j) \<noteq> alertId)
           \<and> \<not> truthy (resolution_time (alerts s ! i))
        then Some now else resolution_time (alerts s ! i))"
  using nth_update_first_exact [OF assms, of "\<lambda>a. alert_id a = alertId" "applyStatus now st notes"]
  by (auto simp: alerts_updateAlertStatus resolution_time_applyStatus)

lemma length_alerts_step:
  "length (alerts (updateAlertStatus now alertId st notes s)) = length (alerts s)"
  by (simp add: alerts_updateAlertStatus length_update_first)

lemma alert_ids_step:
  "map alert_id (alerts (updateAlertStatus now alertId st notes s)) = map alert_id (alerts s)"
  by (simp add: alerts_updateAlertStatus map_update_first alert_id_applyStatus)

lemma alert_id_nth_step:
  "i < length (alerts s) \<Longrightarrow>
   alert_id (alerts (updateAlertStatus now alertId st notes s) ! i) = alert_id (alerts s ! i)"
  using alert_ids_step [of now alertId st "notes" s] length_alerts_step [of now alertId st "notes" s]
  by (metis length_map nth_map)

lemma length_alerts_dispatch:
  "length (alerts (dispatchAlerts acts s)) = length (alerts s)"
  unfolding dispatchAlerts_def
proof (induction acts arbitrary: s)
  case Nil
  show ?case by simp
next
  case (Cons act acts)
  show ?case by (cases act) (simp add: Cons.IH length_alerts_step)
qed

lemma resolution_time_dispatch:
  "i < length (alerts s) \<Longrightarrow> truthy (resolution_time (alerts s ! i)) \<Longrightarrow>
   resolution_time (alerts (dispatchAlerts acts s) ! i) = resolution_time (alerts s ! i)"
  unfolding dispatchAlerts_def
proof (induction acts arbitrary: s)
  case Nil
  show ?case by simp
next
  case (Cons act acts)
  obtain now alertId st nts where act: "act = UpdateAlertStatus now alertId st nts"
    by (cases act)
  let ?s1 = "updateAlertStatus now alertId st nts s"
  have len: "i < length (alerts ?s1)"
    using Cons.prems(1) by (simp add: length_alerts_step)
  have keep: "resolution_time (alerts ?s1 ! i) = resolution_time (alerts s ! i)"
    using Cons.prems by (simp add: resolution_time_step_exact)
  then have "truthy (resolution_time (alerts ?s1 ! i))"
    using Cons.prems(2) by simp
  from Cons.IH [OF len this] keep act show ?case by simp
qed

lemma first_with_id_step:
  assumes "i < length (alerts s)"
    and "alert_id (alerts s ! i) = aid"
    and "\<forall>j<i. alert_id (alerts s ! j) \<noteq> aid"
  shows "alert_id (alerts (updateAlertStatus now alertId st nts s) ! i) = aid
       \<and> (\<forall>j<i. alert_id (alerts (updateAlertStatus now alertId st nts s) ! j) \<noteq> aid)"
  using assms by (simp add: alert_id_nth_step)

lemma unresolved_dispatch:
  "i < length (alerts s) \<Longrightarrow> alert_id (alerts s ! i) = aid \<Longrightarrow>
   \<forall>j<i. alert_id (alerts s ! j) \<noteq> aid \<Longrightarrow>
   \<forall>act \<in> set pre. \<not> resolves aid act \<Longrightarrow>
   resolution_time (alerts (dispatchAlerts pre s) ! i) = resolution_time (alerts s ! i)
   \<and> alert_id (alerts (dispatchAlerts pre s) ! i) = aid
   \<and> (\<forall>j<i. alert_id (alerts (dispatchAlerts pre s) ! j) \<noteq> aid)"
  unfolding dispatchAlerts_def
proof (induction pre arbitrary: s)
  case Nil
  then show ?case by simp
next
  case (Cons act pre)
  obtain now alertId st nts where act: "act = UpdateAlertStatus now alertId st nts"
    by (cases act)
  let ?s1 = "updateAlertStatus now alertId st nts s"
  have nores: "\<not> (alertId = aid \<and> st = RESOLVED)"
    using Cons.prems(4) act by simp
  have len: "i < length (alerts ?s1)"
    using Cons.prems(1) by (simp add: length_alerts_step)
  have keep: "resolution_time (alerts ?s1 ! i) = resolution_time (alerts s ! i)"
    using Cons.prems(1,2) nores by (auto simp: resolution_time_step_exact)
  have ids: "alert_id (alerts ?s1 ! i) = aid"
    "\<forall>j<i. alert_id (alerts ?s1 ! j) \<noteq> aid"
    using first_with_id_step [OF Cons.prems(1,2,3)] by simp_all
  have rest: "\<forall>act \<in> set pre. \<not> resolves aid act"
    using Cons.prems(4) by simp
  from Cons.IH [OF len ids rest] keep act show ?case by simp
qed

lemma dispatchAlerts_append:
  "dispatchAlerts (xs @ ys) s = dispatchAlerts ys (dispatchAlerts xs s)"
  by (simp add: dispatchAlerts_def)

lemma dispatchAlerts_Cons:
  "dispatchAlerts (UpdateAlertStatus now alertId st nts # ys) s
     = dispatchAlerts ys (updateAlertStatus now alertId st nts s)"
  by (simp add: dispatchAlerts_def)

lemma first_resolve_assigns:
  assumes i: "i < length (alerts s)"
    and id: "alert_id (alerts s ! i) = aid"
    and first: "\<forall>j<i. alert_id (alerts s ! j) \<noteq> aid"
    and unset: "\<not> truthy (resolution_time (alerts s ! i))"
    and now: "now \<noteq> []"
    and pre: "\<forall>act \<in> set pre. \<not> resolves aid act"
  shows "resolution_time
           (alerts (dispatchAlerts (pre @ UpdateAlertStatus now aid RESOLVED nts # post) s) ! i)
         = Some now"
proof -
  let ?s1 = "dispatchAlerts pre s"
  let ?s2 = "updateAlertStatus now aid RESOLVED nts ?s1"
  have p: "resolution_time (alerts ?s1 ! i) = resolution_time (alerts s ! i)"
      "alert_id (alerts ?s1 ! i) = aid" "\<forall>j<i. alert_id (alerts ?s1 ! j) \<noteq> aid"
    using unresolved_dispatch [OF i id first pre] by simp_all
  have l1: "i < length (alerts ?s1)"
    using i by (simp add: length_alerts_dispatch)
  have r2: "resolution_time (alerts ?s2 ! i) = Some now"
    using p unset by (simp add: resolution_time_step_exact [OF l1])
  have l2: "i < length (alerts ?s2)"
    using l1 by (simp add: length_alerts_step)
  have "truthy (resolution_time (alerts ?s2 ! i))"
    using r2 now by (simp add: truthy_def)
  from resolution_time_dispatch [OF l2 this, of post] r2
  show ?thesis by (simp add: dispatchAlerts_append dispatchAlerts_Cons)
qed

text \<open>
  Claim C5. \<open>resolution_time\<close> is write-once under \<open>updateAlertStatus\<close>. A resolution
  time is set when it is a non-empty string, which is what the reducer tests, and an alert
  is identified by its position in the list, which the reducer never changes. One update
  changes the resolution time of exactly one alert at most: the first alert with the given
  identifier, when the requested status is resolved and its resolution time is not set; it
  then gets the clock reading \<open>now\<close>. Every other update, to any other status or of an
  alert whose time is set, leaves every resolution time as it is. Hence no sequence of
  updates changes a resolution time that is set; and when an alert's resolution time is not
  set, it stays as it is through any updates that do not resolve that alert, the first
  update that resolves it assigns \<open>now\<close> (\<open>toISOString\<close> never returns the empty
  string, hence \<open>now \<noteq> []\<close>), and whatever updates follow, it remains \<open>now\<close>.
\<close>

theorem resolution_time_write_once:
  "(\<forall>i < length (alerts s).
      resolution_time (alerts (updateAlertStatus now alertId st notes s) ! i)
        = (if st = RESOLVED \<and> alert_id (alerts s ! i) = alertId
              \<and> (\<forall>j<i. alert_id (alerts s ! j) \<noteq> alertId)
              \<and> \<not> truthy (resolution_time (alerts s ! i))
           then Some now else resolution_time (alerts s ! i)))
   \<and> length (alerts (dispatchAlerts acts s)) = length (alerts s)
   \<and> (\<forall>i < length (alerts s). truthy (resolution_time (alerts s ! i)) \<longrightarrow>
        resolution_time (alerts (dispatchAlerts acts s) ! i) = resolution_time (alerts s ! i))
   \<and> (\<forall>i < length (alerts s).
        alert_id (alerts s ! i) = alertId \<and> (\<forall>j<i. alert_id (alerts s ! j) \<noteq> alertId)
        \<and> \<not> truthy (resolution_time (alerts s ! i)) \<and> now \<noteq> []
        \<and> (\<forall>act \<in> set pre. \<not> resolves alertId act) \<longrightarrow>
          resolution_time (alerts (dispatchAlerts pre s) ! i) = resolution_time (alerts s ! i)
          \<and> resolution_time
               (alerts (dispatchAlerts (pre @ UpdateAlertStatus now alertId RESOLVED notes # acts) s) ! i)
             = Some now)"
proof (intro conjI allI impI)
  fix i assume "i < length (alerts s)"
  then show "resolution_time (alerts (updateAlertStatus now alertId st notes s) ! i)
        = (if st = RESOLVED \<and> alert_id (alerts s ! i) = alertId
              \<and> (\<forall>j<i. alert_id (alerts s ! j) \<noteq> alertId)
              \<and> \<not> truthy (resolution_time (alerts s ! i))
           then Some now else resolution_time (alerts s ! i))"
    by (rule resolution_time_step_exact)
next
  show "length (alerts (dispatchAlerts acts s)) = length (alerts s)"
    by (rule length_alerts_dispatch)
next
  fix i
  assume "i < length (alerts s)" and "truthy (resolution_time (alerts s ! i))"
  then show "resolution_time (alerts (dispatchAlerts acts s) ! i) = resolution_time (alerts s ! i)"
    by (rule resolution_time_dispatch)
next
  fix i
  assume i: "i < length (alerts s)"
    and h: "alert_id (alerts s ! i) = alertId \<and> (\<forall>j<i. alert_id (alerts s ! j) \<noteq> alertId)
        \<and> \<not> truthy (resolution_time (alerts s ! i)) \<and> now \<noteq> []
        \<and> (\<forall>act \<in> set pre. \<not> resolves alertId act)"
  from h have id: "alert_id (alerts s ! i) = alertId"
    and first: "\<forall>j<i. alert_id (alerts s ! j) \<noteq> alertId"
    and pre: "\<forall>act \<in> set pre. \<not> resolves alertId act"
    by simp_all
  from unresolved_dispatch [OF i id first pre]
  show "resolution_time (alerts (dispatchAlerts pre s) ! i) = resolution_time (alerts s ! i)"
    by simp
  from h show "resolution_time
       (alerts (dispatchAlerts (pre @ UpdateAlertStatus now alertId RESOLVED notes # acts) s) ! i)
     = Some now"
    by (intro first_resolve_assigns [OF i]) simp_all
qed

text \<open>
  An instance: the second alert of the list is acknowledged with notes while another alert
  is resolved; its resolution time is still not set. It is then resolved at t1, resolved
  again with notes, closed, and resolved once more; its resolution time is t1.
\<close>

theorem resolution_time_write_once_witness:
  "(1::nat) < length (alerts (fixture_alerts
       [fixture_alert ''al2'' NEW None None, fixture_alert ''al1'' IN_PROGRESS None None]))
   \<and> alert_id (alerts (fixture_alerts
       [fixture_alert ''al2'' NEW None None, fixture_alert ''al1'' IN_PROGRESS None None]) ! 1)
       = ''al1''
   \<and> alert_id (alerts (fixture_alerts
       [fixture_alert ''al2'' NEW None None, fixture_alert ''al1'' IN_PROGRESS None None]) ! 0)
       \<noteq> ''al1''
   \<and> \<not> truthy (resolution_time (alerts (fixture_alerts
       [fixture_alert ''al2'' NEW None None, fixture_alert ''al1'' IN_PROGRESS None None]) ! 1))
   \<and> ''t1'' \<noteq> []
   \<and> \<not> resolves ''al1'' (UpdateAlertStatus ''t0'' ''al1'' ACKNOWLEDGED (Some ''seen''))
   \<and> \<not> resolves ''al1'' (UpdateAlertStatus ''t0'' ''al2'' RESOLVED None)
   \<and> resolution_time (alerts (dispatchAlerts
         [UpdateAlertStatus ''t0'' ''al1'' ACKNOWLEDGED (Some ''seen''),
          UpdateAlertStatus ''t0'' ''al2'' RESOLVED None]
         (fixture_alerts
           [fixture_alert ''al2'' NEW None None, fixture_alert ''al1'' IN_PROGRESS None None])) ! 1)
       = None
   \<and> resolution_time (alerts (dispatchAlerts
         ([UpdateAlertStatus ''t0'' ''al1'' ACKNOWLEDGED (Some ''seen''),
           UpdateAlertStatus ''t0'' ''al2'' RESOLVED None]
          @ UpdateAlertStatus ''t1'' ''al1'' RESOLVED None
          # [UpdateAlertStatus ''t2'' ''al1'' RESOLVED (Some ''again''),
             UpdateAlertStatus ''t3'' ''al1'' CLOSED None,
             UpdateAlertStatus ''t4'' ''al1'' RESOLVED None])
         (fixture_alerts
           [fixture_alert ''al2'' NEW None None, fixture_alert ''al1'' IN_PROGRESS None None])) ! 1)
       = Some ''t1''"
proof -
  let ?s = "fixture_alerts
       [fixture_alert ''al2'' NEW None None, fixture_alert ''al1'' IN_PROGRESS None None]"
  let ?pre = "[UpdateAlertStatus ''t0'' ''al1'' ACKNOWLEDGED (Some ''seen''),
          UpdateAlertStatus ''t0'' ''al2'' RESOLVED None]"
  let ?post = "[UpdateAlertStatus ''t2'' ''al1'' RESOLVED (Some ''again''),
             UpdateAlertStatus ''t3'' ''al1'' CLOSED None,
             UpdateAlertStatus ''t4'' ''al1'' RESOLVED None]"
  have len: "(1::nat) < length (alerts ?s)"
    by (simp add: fixture_alerts_def)
  have id: "alert_id (alerts ?s ! 1) = ''al1''" and other: "alert_id (alerts ?s ! 0) \<noteq> ''al1''"
    by (simp_all add: fixture_alerts_def fixture_alert_def)
  have first: "\<forall>j<1. alert_id (alerts ?s ! j) \<noteq> ''al1''"
    using other by simp
  have unset: "\<not> truthy (resolution_time (alerts ?s ! 1))"
    and none: "resolution_time (alerts ?s ! 1) = None"
    by (simp_all add: truthy_def fixture_alerts_def fixture_alert_def)
  have now: "''t1'' \<noteq> []"
    by simp
  have r1: "\<not> resolves ''al1'' (UpdateAlertStatus ''t0'' ''al1'' ACKNOWLEDGED (Some ''seen''))"
    and r2: "\<not> resolves ''al1'' (UpdateAlertStatus ''t0'' ''al2'' RESOLVED None)"
    by simp_all
  then have pre: "\<forall>act \<in> set ?pre. \<not> resolves ''al1'' act"
    by simp
  from resolution_time_write_once [of ?s "''t1''" "''al1''" RESOLVED None ?post ?pre]
  have "\<forall>i < length (alerts ?s).
        alert_id (alerts ?s ! i) = ''al1'' \<and> (\<forall>j<i. alert_id (alerts ?s ! j) \<noteq> ''al1'')
        \<and> \<not> truthy (resolution_time (alerts ?s ! i)) \<and> ''t1'' \<noteq> []
        \<and> (\<forall>act \<in> set ?pre. \<not> resolves ''al1'' act) \<longrightarrow>
          resolution_time (alerts (dispatchAlerts ?pre ?s) ! i) = resolution_time (alerts ?s ! i)
          \<and> resolution_time
               (alerts (dispatchAlerts (?pre @ UpdateAlertStatus ''t1'' ''al1'' RESOLVED None # ?post) ?s) ! i)
             = Some ''t1''"
    by blast
  with len id first unset now pre
  have "resolution_time (alerts (dispatchAlerts ?pre ?s) ! 1) = resolution_time (alerts ?s ! 1)
      \<and> resolution_time
           (alerts (dispatchAlerts (?pre @ UpdateAlertStatus ''t1'' ''al1'' RESOLVED None # ?post) ?s) ! 1)
         = Some ''t1''"
    by blast
  with none have res: "resolution_time (alerts (dispatchAlerts ?pre ?s) ! 1) = None"
    "resolution_time
           (alerts (dispatchAlerts (?pre @ UpdateAlertStatus ''t1'' ''al1'' RESOLVED None # ?post) ?s) ! 1)
         = Some ''t1''"
    by simp_all
  from len id other unset now r1 r2 res show ?thesis by (intro conjI)
qed

text \<open>
  The statement of claim C6, that every successful status transition appends one entry to
  the alert's update history, is false of the reducer: a new alert with an empty history is
  acknowledged, and its history is still empty.
\<close>

theorem updateAlertStatus_no_history_counterexample:
  "map alert_status (alerts (fixture_alerts [fixture_alert ''al1'' NEW None (Some [])])) = [NEW]
   \<and> map alert_status (alerts (updateAlertStatus ''t1'' ''al1'' ACKNOWLEDGED None
        (fixture_alerts [fixture_alert ''al1'' NEW None (Some [])]))) = [ACKNOWLEDGED]
   \<and> map update_history (alerts (updateAlertStatus ''t1'' ''al1'' ACKNOWLEDGED None
        (fixture_alerts [fixture_alert ''al1'' NEW None (Some [])]))) = [Some []]"
  by (simp add: updateAlertStatus_def applyStatus_def truthy_def fixture_alerts_def
      fixture_alert_def)

text \<open>
  Claim C6, amended. \<open>updateAlertStatus\<close> never writes the update history: after it,
  every alert of the list has exactly the history it had before, so no entry is appended
  for the transition, and none is removed or truncated.
\<close>

theorem updateAlertStatus_history_untouched:
  "map update_history (alerts (updateAlertStatus now alertId st notes s))
     = map update_history (alerts s)"
  by (simp add: alerts_updateAlertStatus map_update_first update_history_applyStatus)

section \<open>Calendar data\<close>

text \<open>
  The statement of claim C7, that a slot missing from the calendar gets the value of a
  medium slot, is false of \<open>prepareCalendarData\<close>: with one medium slot on Monday
  morning and no entry for Monday afternoon, the two cells get 0.6 and 0.5.
\<close>

theorem missing_slot_not_medium_counterexample:
  "findSlot [''Monday'' \<mapsto> [\<lparr>slot_time = ''10:00-12:00'', risk_level = Risk_medium\<rparr>]]
      ''Monday'' ''14:00-16:00'' = None
   \<and> findSlot [''Monday'' \<mapsto> [\<lparr>slot_time = ''10:00-12:00'', risk_level = Risk_medium\<rparr>]]
      ''Monday'' ''10:00-12:00'' = Some \<lparr>slot_time = ''10:00-12:00'', risk_level = Risk_medium\<rparr>
   \<and> map cell_value (take 2 (prepareCalendarData
        (Some [''Monday'' \<mapsto> [\<lparr>slot_time = ''10:00-12:00'', risk_level = Risk_medium\<rparr>]])))
      = [0.6, 0.5]
   \<and> (0.5 :: real) \<noteq> 0.6"
  by (simp add: prepareCalendarData_def calendarCell_def findSlot_def days_def timeSlots_def)

text \<open>
  Claim C7, amended. A (day, time slot) pair with no entry in the calendar gets the value
  0.5, which is not the value 0.6 of a medium slot; the heat map's tooltip prints the band
  Medium for both values. Every cell of a listed day and time slot is in the result of
  \<open>prepareCalendarData\<close>.
\<close>

theorem missing_slot_value:
  "(findSlot optimalWindows day time = None \<longrightarrow>
      cell_value (calendarCell optimalWindows day time) = 0.5
      \<and> cell_value (calendarCell optimalWindows day time) \<noteq> 0.6
      \<and> tooltipRisk (cell_value (calendarCell optimalWindows day time)) = ''Medium'')
   \<and> (\<forall>slot. findSlot optimalWindows day time = Some slot \<and> risk_level slot = Risk_medium \<longrightarrow>
      cell_value (calendarCell optimalWindows day time) = 0.6
      \<and> tooltipRisk (cell_value (calendarCell optimalWindows day time)) = ''Medium'')
   \<and> (day \<in> set days \<and> time \<in> set timeSlots \<longrightarrow>
      calendarCell optimalWindows day time \<in> set (prepareCalendarData (Some optimalWindows)))"
  by (auto simp: calendarCell_def tooltipRisk_def prepareCalendarData_def)

theorem missing_slot_value_witness:
  "findSlot [''Monday'' \<mapsto> [\<lparr>slot_time = ''10:00-12:00'', risk_level = Risk_medium\<rparr>]]
      ''Monday'' ''14:00-16:00'' = None
   \<and> ''Monday'' \<in> set days \<and> ''14:00-16:00'' \<in> set timeSlots
   \<and> cell_value (calendarCell
        [''Monday'' \<mapsto> [\<lparr>slot_time = ''10:00-12:00'', risk_level = Risk_medium\<rparr>]]
        ''Monday'' ''14:00-16:00'') = 0.5
   \<and> calendarCell
        [''Monday'' \<mapsto> [\<lparr>slot_time = ''10:00-12:00'', risk_level = Risk_medium\<rparr>]]
        ''Monday'' ''14:00-16:00''
      \<in> set (prepareCalendarData
          (Some [''Monday'' \<mapsto> [\<lparr>slot_time = ''10:00-12:00'', risk_level = Risk_medium\<rparr>]]))
   \<and> findSlot [''Monday'' \<mapsto> [\<lparr>slot_time = ''10:00-12:00'', risk_level = Risk_medium\<rparr>]]
      ''Monday'' ''10:00-12:00'' = Some \<lparr>slot_time = ''10:00-12:00'', risk_level = Risk_medium\<rparr>
   \<and> cell_value (calendarCell
        [''Monday'' \<mapsto> [\<lparr>slot_time = ''10:00-12:00'', risk_level = Risk_medium\<rparr>]]
        ''Monday'' ''10:00-12:00'') = 0.6"
proof -
  let ?w = "[''Monday'' \<mapsto> [\<lparr>slot_time = ''10:00-12:00'', risk_level = Risk_medium\<rparr>]]"
  have m: "findSlot ?w ''Monday'' ''14:00-16:00'' = None"
    by (simp add: findSlot_def)
  have f: "findSlot ?w ''Monday'' ''10:00-12:00''
             = Some \<lparr>slot_time = ''10:00-12:00'', risk_level = Risk_medium\<rparr>"
    by (simp add: findSlot_def)
  have d: "''Monday'' \<in> set days" and t: "''14:00-16:00'' \<in> set timeSlots"
    by (simp_all add: days_def timeSlots_def)
  from missing_slot_value [of ?w "''Monday''" "''14:00-16:00''"]
       missing_slot_value [of ?w "''Monday''" "''10:00-12:00''"] m f d t
  show ?thesis by simp
qed

section \<open>Notifications\<close>

lemma length_addNotification:
  "length (notifications (addNotification nowMs rnd nowIso payload s))
     = min 50 (Suc (length (notifications s)))"
  by (simp add: addNotification_def Let_def)

lemma notifications_bounded_dispatch:
  "length (notifications s) \<le> 50 \<Longrightarrow>
   length (notifications (dispatchNotifications acts s)) \<le> 50"
  unfolding dispatchNotifications_def
proof (induction acts arbitrary: s)
  case Nil
  then show ?case by simp
next
  case (Cons act acts)
  obtain nowMs rnd nowIso payload where act: "act = AddNotification nowMs rnd nowIso payload"
    by (cases act)
  have "length (notifications (addNotification nowMs rnd nowIso payload s)) \<le> 50"
    by (simp add: length_addNotification)
  from Cons.IH [OF this] act show ?case by simp
qed

text \<open>
  Claim C10. Bounded notification list: when the list has at most 50 entries,
  \<open>addNotification\<close> gives a list of at most 50 entries whose first entry is the new
  notification, unread, followed by the first 49 of the old entries; after any sequence of
  \<open>addNotification\<close> actions from the initial state the list has at most 50 entries.
\<close>

theorem addNotification_bounded:
  "(length (notifications s) \<le> 50 \<longrightarrow>
      length (notifications (addNotification nowMs rnd nowIso payload s)) \<le> 50
      \<and> (\<exists>n rest. notifications (addNotification nowMs rnd nowIso payload s) = n # rest
            \<and> message n = payload_message payload \<and> ntype n = payload_type payload
            \<and> notif_id n = ''notification-'' @ decimal nowMs @ ''-'' @ decimal rnd
            \<and> notif_timestamp n = nowIso
            \<and> \<not> read n
            \<and> rest = take 49 (notifications s)))
   \<and> length (notifications (dispatchNotifications acts initialState)) \<le> 50"
proof (intro conjI impI)
  show "length (notifications (addNotification nowMs rnd nowIso payload s)) \<le> 50"
    by (simp add: length_addNotification)
next
  assume "length (notifications s) \<le> 50"
  then show "\<exists>n rest. notifications (addNotification nowMs rnd nowIso payload s) = n # rest
            \<and> message n = payload_message payload \<and> ntype n = payload_type payload
            \<and> notif_id n = ''notification-'' @ decimal nowMs @ ''-'' @ decimal rnd
            \<and> notif_timestamp n = nowIso
            \<and> \<not> read n
            \<and> rest = take 49 (notifications s)"
    by (simp add: addNotification_def Let_def)
next
  have "length (notifications initialState) \<le> 50"
    by (simp add: initialState_def)
  then show "length (notifications (dispatchNotifications acts initialState)) \<le> 50"
    by (rule notifications_bounded_dispatch)
qed

text \<open>
  An instance on a full list: 50 read notifications are stored, one is added; the list has
  50 entries again, the new unread notification first.
\<close>

theorem addNotification_bounded_witness:
  "length (notifications (initialState\<lparr>notifications :=
       replicate 50 \<lparr>notif_id = ''notification-1-1'', message = ''old'', ntype = N_info,
                     notif_timestamp = ''2023-11-14T00:00:00.000Z'', read = True\<rparr>\<rparr>)) \<le> 50
   \<and> length (notifications (addNotification 1700000000123 42 ''2023-11-14T22:13:20.123Z''
          \<lparr>payload_message = ''disk full'', payload_type = N_warning\<rparr>
          (initialState\<lparr>notifications :=
       replicate 50 \<lparr>notif_id = ''notification-1-1'', message = ''old'', ntype = N_info,
                     notif_timestamp = ''2023-11-14T00:00:00.000Z'', read = True\<rparr>\<rparr>))) \<le> 50
   \<and> (\<exists>n rest. notifications (addNotification 1700000000123 42 ''2023-11-14T22:13:20.123Z''
          \<lparr>payload_message = ''disk full'', payload_type = N_warning\<rparr>
          (initialState\<lparr>notifications :=
       replicate 50 \<lparr>notif_id = ''notification-1-1'', message = ''old'', ntype = N_info,
                     notif_timestamp = ''2023-11-14T00:00:00.000Z'', read = True\<rparr>\<rparr>)) = n # rest
        \<and> message n = ''disk full'' \<and> \<not> read n \<and> length rest = 49)"
proof -
  let ?old = "\<lparr>notif_id = ''notification-1-1'', message = ''old'', ntype = N_info,
                     notif_timestamp = ''2023-11-14T00:00:00.000Z'', read = True\<rparr>"
  let ?s = "initialState\<lparr>notifications := replicate 50 ?old\<rparr>"
  have h: "length (notifications ?s) \<le> 50"
    by simp
  from addNotification_bounded [of ?s 1700000000123 42 "''2023-11-14T22:13:20.123Z''"
      "\<lparr>payload_message = ''disk full'', payload_type = N_warning\<rparr>" "[]"] h
  show ?thesis by auto
qed

end
